theory Spec2Isabelle
  imports Main
begin

section \<open>JavaScript values, exceptions and the environment of client.ts\<close>

text \<open>
  The bus (\<^verbatim>\<open>window.postMessage\<close>) delivers arbitrary structured values, and the
  TypeScript types of client.ts are erased at run time, so every inbound value is
  modelled as an untyped JavaScript value. An object is the list of its own properties.
  The source only reads the keys \<^verbatim>\<open>ethereum\<close>, \<^verbatim>\<open>channel\<close>, \<^verbatim>\<open>kind\<close>,
  \<^verbatim>\<open>message\<close>, \<^verbatim>\<open>type\<close>, \<^verbatim>\<open>correlation_id\<close>, \<^verbatim>\<open>success\<close>, \<^verbatim>\<open>payload\<close>,
  \<^verbatim>\<open>provider_id\<close> and \<^verbatim>\<open>address\<close>, none of which a built-in prototype defines, so a
  lookup among the own properties is the lookup JavaScript performs. Numbers and
  \<^verbatim>\<open>BigInt\<close>s are integers (the code does no arithmetic on them); values that are no
  such trees (a typed array, a cyclic object) are not modelled.
\<close>

datatype jsval =
    JUndefined
  | JNull
  | JBool bool
  | JNum int
  | JBigInt int
  | JStr string
  | JObj "(string \<times> jsval) list"

text \<open>
  An instance of \<^verbatim>\<open>Error\<close>: either one built by \<^verbatim>\<open>new Error(message)\<close>, or the
  \<^verbatim>\<open>TypeError\<close> the runtime raises (its message is engine specific and not modelled).
\<close>

datatype js_error = JsError string | JsTypeError

text \<open>
  What a \<^verbatim>\<open>throw\<close> carries: an instance of \<^verbatim>\<open>Error\<close>, or any other value.
\<close>

datatype thrown = Throw_Error js_error | Throw_Value jsval

text \<open>\<^verbatim>\<open>typeof v\<close>; note \<^verbatim>\<open>typeof null === 'object'\<close>.\<close>

fun js_typeof :: "jsval \<Rightarrow> string" where
  "js_typeof JUndefined = ''undefined''"
| "js_typeof JNull = ''object''"
| "js_typeof (JBool b) = ''boolean''"
| "js_typeof (JNum n) = ''number''"
| "js_typeof (JBigInt n) = ''bigint''"
| "js_typeof (JStr s) = ''string''"
| "js_typeof (JObj kvs) = ''object''"

text \<open>
  \<^verbatim>\<open>k in v\<close>: a \<^verbatim>\<open>TypeError\<close> unless \<^verbatim>\<open>v\<close> is an object (\<^verbatim>\<open>null\<close> is not).
\<close>

fun js_in :: "string \<Rightarrow> jsval \<Rightarrow> thrown + bool" where
  "js_in k (JObj kvs) = Inr (map_of kvs k \<noteq> None)"
| "js_in k v = Inl (Throw_Error JsTypeError)"

text \<open>
  \<^verbatim>\<open>v.k\<close>: a \<^verbatim>\<open>TypeError\<close> on \<^verbatim>\<open>undefined\<close> and \<^verbatim>\<open>null\<close>, the property (or
  \<^verbatim>\<open>undefined\<close>) on an object, \<^verbatim>\<open>undefined\<close> on the other primitives.
\<close>

definition own_property :: "(string \<times> jsval) list \<Rightarrow> string \<Rightarrow> jsval" where
  "own_property kvs k = (case map_of kvs k of None \<Rightarrow> JUndefined | Some v \<Rightarrow> v)"

fun js_get :: "jsval \<Rightarrow> string \<Rightarrow> thrown + jsval" where
  "js_get JUndefined k = Inl (Throw_Error JsTypeError)"
| "js_get JNull k = Inl (Throw_Error JsTypeError)"
| "js_get (JObj kvs) k = Inr (own_property kvs k)"
| "js_get v k = Inr JUndefined"

text \<open>The truthiness that \<^verbatim>\<open>if (v)\<close> tests.\<close>

fun truthy :: "jsval \<Rightarrow> bool" where
  "truthy JUndefined = False"
| "truthy JNull = False"
| "truthy (JBool b) = b"
| "truthy (JNum n) = (n \<noteq> 0)"
| "truthy (JBigInt n) = (n \<noteq> 0)"
| "truthy (JStr s) = (s \<noteq> [])"
| "truthy (JObj kvs) = True"

text \<open>
  What client.ts uses and does not define: the constants of \<^verbatim>\<open>./shared\<close>,
  \<^verbatim>\<open>assertNever\<close> of \<^verbatim>\<open>./utils\<close> (its return type is \<^verbatim>\<open>never\<close>: it throws, and the
  field gives what it throws), the built-ins \<^verbatim>\<open>JSON.stringify\<close> and the conversion of a
  value to a property key, and whether the window has a parent distinct from itself. They
  are parameters of the model. Both built-ins can throw (\<open>Inl\<close>, an instance of
  \<^verbatim>\<open>Error\<close>): \<^verbatim>\<open>JSON.stringify\<close> on a \<^verbatim>\<open>BigInt\<close> or a cyclic object, the key
  conversion on an object that converts to no primitive. Where \<^verbatim>\<open>JSON.stringify\<close>
  returns, \<open>None\<close> is its result \<^verbatim>\<open>undefined\<close>.
\<close>

record env =
  JSON_stringify :: "jsval \<Rightarrow> js_error + string option"
  ToPropertyKey :: "jsval \<Rightarrow> js_error + string"
  assertNever :: "jsval \<Rightarrow> thrown"
  parent_distinct :: bool
  Handshake_PROVIDER_CHANNEL_NAME :: string
  Handshake_CLIENT_CHANNEL_NAME :: string
  Handshake_KIND :: string
  HotOstrich_PROVIDER_CHANNEL_PREFIX :: string
  HotOstrich_CLIENT_CHANNEL_PREFIX :: string
  HotOstrich_KIND :: string

text \<open>\<^verbatim>\<open>new Error(x)\<close> for the result \<open>x\<close> of \<^verbatim>\<open>JSON.stringify\<close>: the message of
  \<^verbatim>\<open>new Error(undefined)\<close> is empty.\<close>

definition new_Error :: "string option \<Rightarrow> js_error" where
  "new_Error x = (case x of None \<Rightarrow> JsError [] | Some m \<Rightarrow> JsError m)"

text \<open>The interpolation \<^verbatim>\<open>${x}\<close> of a template literal, for the same \<open>x\<close>.\<close>

definition interpolate :: "string option \<Rightarrow> string" where
  "interpolate x = (case x of None \<Rightarrow> ''undefined'' | Some m \<Rightarrow> m)"

text \<open>The key under which \<^verbatim>\<open>obj[v] = ...\<close> stores: a string is its own key.\<close>

definition property_key :: "env \<Rightarrow> jsval \<Rightarrow> js_error + string" where
  "property_key E v = (case v of JStr s \<Rightarrow> Inr s | _ \<Rightarrow> ToPropertyKey E v)"

section \<open>Effects\<close>

text \<open>
  The trace lists, in program order, every effect of the code outside its own control
  flow: the messages posted to the parent window and to the window itself, the calls of
  the caller-supplied callbacks, the creation and the settling calls of Futures (the
  class \<^verbatim>\<open>Future\<close> of \<^verbatim>\<open>./future\<close> is not defined in client.ts, so a Future is an
  identifier, and the calls made on it are recorded and taken to return), and the pushes
  onto the pending-request table.
\<close>

record PendingRequest =
  entryTime :: int
  correlationId :: string
  kind :: string
  future :: nat

datatype event =
    Parent_postMessage jsval
  | Window_postMessage jsval
  | Call_onError js_error
  | Call_onProviderAnnounced jsval
  | Call_onSignerAddressChanged jsval
  | Future_new nat
  | Future_resolve nat jsval
  | Future_reject nat js_error
  | PendingRequests_push PendingRequest

text \<open>
  The state every Channel has: whether its \<^verbatim>\<open>onMessage\<close> is registered as a listener
  of the window, and the trace. A statement that may throw maps a state to what it threw
  (\<open>None\<close> when it completed) and the state it left.
\<close>

record channel =
  listening :: bool
  trace :: "event list"

type_synonym 's action = "'s \<Rightarrow> thrown option \<times> 's"

definition emit :: "event \<Rightarrow> 'a channel_scheme \<Rightarrow> 'a channel_scheme" where
  "emit e s = s\<lparr>trace := trace s @ [e]\<rparr>"

text \<open>
  A call of a caller-supplied callback: the call is recorded, and the callback returns
  (\<open>None\<close>) or throws. The callbacks are taken to decide this from their argument, and
  not to call back into the channel.
\<close>

definition invoke :: "event \<Rightarrow> thrown option \<Rightarrow> 'a channel_scheme action" where
  "invoke e r s = (r, emit e s)"

section \<open>Channel\<close>

text \<open>client.ts 197 and 198.\<close>

definition isEthereumMessageEvent :: "jsval \<Rightarrow> thrown + bool" where
  "isEthereumMessageEvent data =
     (if js_typeof data \<noteq> ''object'' then Inr False
      else case js_in ''ethereum'' data of
        Inl t \<Rightarrow> Inl t
      | Inr False \<Rightarrow> Inr False
      | Inr True \<Rightarrow>
          (case js_get data ''ethereum'' of
             Inl t \<Rightarrow> Inl t
           | Inr eth \<Rightarrow> Inr (js_typeof eth = ''object'')))"

definition isProviderMessage :: "jsval \<Rightarrow> thrown + bool" where
  "isProviderMessage message =
     (case js_get message ''type'' of
        Inl t \<Rightarrow> Inl t
      | Inr ty \<Rightarrow> Inr (ty = JStr ''notification'' \<or> ty = JStr ''response''))"

text \<open>client.ts 48.\<close>

definition isT :: "string \<Rightarrow> jsval \<Rightarrow> thrown + bool" where
  "isT kind' messageEnvelope =
     (case js_get messageEnvelope ''kind'' of
        Inl t \<Rightarrow> Inl t
      | Inr k \<Rightarrow> Inr (k = JStr kind'))"

text \<open>The constructor of Channel registers the listener; \<^verbatim>\<open>shutdown\<close> removes it.\<close>

definition Channel_constructor :: "'a channel_scheme \<Rightarrow> 'a channel_scheme" where
  "Channel_constructor s = s\<lparr>listening := True\<rparr>"

definition shutdown :: "'a channel_scheme \<Rightarrow> 'a channel_scheme" where
  "shutdown s = s\<lparr>listening := False\<rparr>"

text \<open>
  The body of the \<^verbatim>\<open>try\<close> of \<^verbatim>\<open>onMessage\<close> (client.ts 16 to 22), for the
  \<^verbatim>\<open>data\<close> of the event; \<open>providerChannelName\<close>, \<open>kind'\<close> and \<open>onProviderMessage\<close>
  are the abstract members the subclass supplies.
\<close>

definition onMessage_try ::
  "string \<Rightarrow> string \<Rightarrow> (jsval \<Rightarrow> 's action) \<Rightarrow> jsval \<Rightarrow> 's action" where
  "onMessage_try providerChannelName kind' onProviderMessage data s =
     (case isEthereumMessageEvent data of
        Inl t \<Rightarrow> (Some t, s)
      | Inr False \<Rightarrow> (None, s)
      | Inr True \<Rightarrow>
     (case js_get data ''ethereum'' of
        Inl t \<Rightarrow> (Some t, s)
      | Inr eth \<Rightarrow>
     (case js_get eth ''channel'' of
        Inl t \<Rightarrow> (Some t, s)
      | Inr ch \<Rightarrow>
          if ch \<noteq> JStr providerChannelName then (None, s)
          else
     (case isT kind' eth of
        Inl t \<Rightarrow> (Some t, s)
      | Inr False \<Rightarrow> (None, s)
      | Inr True \<Rightarrow>
     (case js_get eth ''message'' of
        Inl t \<Rightarrow> (Some t, s)
      | Inr message \<Rightarrow>
     (case isProviderMessage message of
        Inl t \<Rightarrow> (Some t, s)
      | Inr False \<Rightarrow> (None, s)
      | Inr True \<Rightarrow> onProviderMessage message s))))))"

text \<open>
  The argument the \<^verbatim>\<open>catch\<close> of \<^verbatim>\<open>onMessage\<close> builds for \<^verbatim>\<open>onError\<close>
  (client.ts 24 to 30): \<open>Inr\<close> the argument, \<open>Inl\<close> what \<^verbatim>\<open>JSON.stringify\<close> throws
  at line 29.
\<close>

definition normalize :: "env \<Rightarrow> thrown \<Rightarrow> js_error + js_error" where
  "normalize E error =
     (case error of
        Throw_Error e \<Rightarrow> Inr e
      | Throw_Value v \<Rightarrow>
          (case v of
             JStr str \<Rightarrow> Inr (JsError str)
           | _ \<Rightarrow>
               (case JSON_stringify E v of
                  Inl e \<Rightarrow> Inl e
                | Inr x \<Rightarrow> Inr (new_Error x))))"

text \<open>
  \<^verbatim>\<open>onMessage\<close> (client.ts 14 to 32); \<open>onError'\<close> is the subclass's \<^verbatim>\<open>onError\<close>.
  Nothing encloses the \<^verbatim>\<open>catch\<close> block: what is thrown inside it leaves the listener.
\<close>

definition onMessage ::
  "env \<Rightarrow> string \<Rightarrow> string \<Rightarrow> (jsval \<Rightarrow> 'a channel_scheme action) \<Rightarrow>
   (js_error \<Rightarrow> thrown option) \<Rightarrow> jsval \<Rightarrow> 'a channel_scheme action" where
  "onMessage E providerChannelName kind' onProviderMessage onError' data s =
     (case onMessage_try providerChannelName kind' onProviderMessage data s of
        (None, s1) \<Rightarrow> (None, s1)
      | (Some error, s1) \<Rightarrow>
          (case normalize E error of
             Inl e \<Rightarrow> (Some (Throw_Error e), s1)
           | Inr e \<Rightarrow> invoke (Call_onError e) (onError' e) s1))"

text \<open>
  The window dispatching a \<^verbatim>\<open>message\<close> event: only a registered listener runs. What
  the listener throws reaches the dispatch loop of the window.
\<close>

definition dispatchEvent :: "(jsval \<Rightarrow> 'a channel_scheme action) \<Rightarrow> jsval \<Rightarrow> 'a channel_scheme action" where
  "dispatchEvent listener data s = (if listening s then listener data s else (None, s))"

text \<open>\<^verbatim>\<open>send\<close> (client.ts 34 to 46).\<close>

definition EthereumEnvelope :: "string \<Rightarrow> string \<Rightarrow> jsval \<Rightarrow> jsval" where
  "EthereumEnvelope channel' kind' message =
     JObj [(''ethereum'',
       JObj [(''channel'', JStr channel'), (''kind'', JStr kind'), (''message'', message)])]"

definition send :: "env \<Rightarrow> string \<Rightarrow> string \<Rightarrow> jsval \<Rightarrow> 'a channel_scheme \<Rightarrow> 'a channel_scheme" where
  "send E clientChannelName kind' message s =
     (let ethereumEnvelope = EthereumEnvelope clientChannelName kind' message;
          s1 = (if parent_distinct E then emit (Parent_postMessage ethereumEnvelope) s else s)
      in emit (Window_postMessage ethereumEnvelope) s1)"

section \<open>HandshakeChannel\<close>

record HandshakeHandlers =
  Handshake_onError :: "js_error \<Rightarrow> thrown option"
  onProviderAnnounced :: "jsval \<Rightarrow> thrown option"

text \<open>
  \<^verbatim>\<open>knownProviders\<close> is a plain object: its own properties, and its prototype
  (\<open>None\<close> is \<^verbatim>\<open>Object.prototype\<close>, with which it is created).
\<close>

record HandshakeChannel = channel +
  knownProviders :: "string \<rightharpoonup> jsval"
  knownProviders_prototype :: "jsval option"

text \<open>\<^verbatim>\<open>announceClient\<close> (client.ts 100 to 106) and \<^verbatim>\<open>reRequestProviders\<close> (68 to 70).\<close>

definition client_announcement :: jsval where
  "client_announcement =
     JObj [(''kind'', JStr ''client_announcement''), (''type'', JStr ''broadcast''),
           (''payload'', JObj [])]"

definition announceClient :: "env \<Rightarrow> 'a HandshakeChannel_scheme \<Rightarrow> 'a HandshakeChannel_scheme" where
  "announceClient E s =
     send E (Handshake_CLIENT_CHANNEL_NAME E) (Handshake_KIND E) client_announcement s"

definition reRequestProviders :: "env \<Rightarrow> 'a HandshakeChannel_scheme \<Rightarrow> 'a HandshakeChannel_scheme" where
  "reRequestProviders E s = announceClient E s"

text \<open>
  The constructor (client.ts 63 to 66): the constructor of Channel, the initial
  \<^verbatim>\<open>knownProviders = {}\<close>, then \<^verbatim>\<open>announceClient\<close>.
\<close>

definition HandshakeChannel_constructor :: "env \<Rightarrow> HandshakeChannel" where
  "HandshakeChannel_constructor E =
     announceClient E
       (Channel_constructor
          \<lparr>listening = False, trace = [], knownProviders = Map.empty,
           knownProviders_prototype = None\<rparr>)"

text \<open>
  The assignment \<^verbatim>\<open>this.knownProviders[k] = v\<close>. Under the key \<^verbatim>\<open>__proto__\<close>, as
  long as the lookup of that key along the prototype chain ends at the accessor of
  \<^verbatim>\<open>Object.prototype\<close>, no property is stored: an object or \<^verbatim>\<open>null\<close> becomes the
  prototype, any other value is dropped. The lookup ends there unless the object or its
  prototype has a property of that name of its own, or the prototype is \<^verbatim>\<open>null\<close>.
\<close>

definition reaches_proto_setter :: "'a HandshakeChannel_scheme \<Rightarrow> bool" where
  "reaches_proto_setter s =
     (knownProviders s ''__proto__'' = None \<and>
      (case knownProviders_prototype s of
         None \<Rightarrow> True
       | Some (JObj kvs) \<Rightarrow> map_of kvs ''__proto__'' = None
       | Some _ \<Rightarrow> False))"

definition knownProviders_assign ::
  "string \<Rightarrow> jsval \<Rightarrow> 'a HandshakeChannel_scheme \<Rightarrow> 'a HandshakeChannel_scheme" where
  "knownProviders_assign k v s =
     (if k = ''__proto__'' \<and> reaches_proto_setter s then
        (if js_typeof v = ''object'' then s\<lparr>knownProviders_prototype := Some v\<rparr> else s)
      else s\<lparr>knownProviders := (knownProviders s)(k \<mapsto> v)\<rparr>)"

text \<open>\<^verbatim>\<open>onProviderAnnouncement\<close> (client.ts 95 to 98).\<close>

definition onProviderAnnouncement ::
  "env \<Rightarrow> HandshakeHandlers \<Rightarrow> jsval \<Rightarrow> 'a HandshakeChannel_scheme action" where
  "onProviderAnnouncement E h announcement s =
     (case js_get announcement ''provider_id'' of
        Inl t \<Rightarrow> (Some t, s)
      | Inr provider_id \<Rightarrow>
     (case property_key E provider_id of
        Inl e \<Rightarrow> (Some (Throw_Error e), s)
      | Inr k \<Rightarrow>
          invoke (Call_onProviderAnnounced announcement) (onProviderAnnounced h announcement)
            (knownProviders_assign k announcement s)))"

text \<open>\<^verbatim>\<open>onNotification\<close> (client.ts 87 to 93).\<close>

definition Handshake_onNotification ::
  "env \<Rightarrow> HandshakeHandlers \<Rightarrow> jsval \<Rightarrow> 'a HandshakeChannel_scheme action" where
  "Handshake_onNotification E h notification s =
     (case js_get notification ''kind'' of
        Inl t \<Rightarrow> (Some t, s)
      | Inr k \<Rightarrow>
          if k = JStr ''provider_announcement'' then
            (case js_get notification ''payload'' of
               Inl t \<Rightarrow> (Some t, s)
             | Inr payload \<Rightarrow> onProviderAnnouncement E h payload s)
          else (Some (assertNever E k), s))"

text \<open>\<^verbatim>\<open>onProviderMessage\<close> (client.ts 79 to 85).\<close>

definition Handshake_onProviderMessage ::
  "env \<Rightarrow> HandshakeHandlers \<Rightarrow> jsval \<Rightarrow> 'a HandshakeChannel_scheme action" where
  "Handshake_onProviderMessage E h message s =
     (case js_get message ''type'' of
        Inl t \<Rightarrow> (Some t, s)
      | Inr ty \<Rightarrow>
          if ty = JStr ''notification'' then Handshake_onNotification E h message s
          else (Some (assertNever E ty), s))"

text \<open>The listener of a HandshakeChannel: \<^verbatim>\<open>onMessage\<close> with the members of 74 to 77.\<close>

definition Handshake_onMessage ::
  "env \<Rightarrow> HandshakeHandlers \<Rightarrow> jsval \<Rightarrow> 'a HandshakeChannel_scheme action" where
  "Handshake_onMessage E h =
     onMessage E (Handshake_PROVIDER_CHANNEL_NAME E) (Handshake_KIND E)
       (Handshake_onProviderMessage E h) (Handshake_onError h)"

section \<open>HotOstrichChannel\<close>

record HotOstrichHandlers =
  HotOstrich_onError :: "js_error \<Rightarrow> thrown option"
  onSignerAddressChanged :: "jsval \<Rightarrow> thrown option"

text \<open>
  \<open>futures\<close> counts the Futures created so far: \<^verbatim>\<open>new Future()\<close> yields an object
  distinct from all earlier ones, here the next identifier.
\<close>

record HotOstrichChannel = channel +
  pendingRequests :: "PendingRequest list"
  futures :: nat

definition HotOstrichChannel_constructor :: HotOstrichChannel where
  "HotOstrichChannel_constructor =
     Channel_constructor \<lparr>listening = False, trace = [], pendingRequests = [], futures = 0\<rparr>"

definition providerChannelName :: "env \<Rightarrow> string \<Rightarrow> string" where
  "providerChannelName E providerId = HotOstrich_PROVIDER_CHANNEL_PREFIX E @ providerId"

definition clientChannelName :: "env \<Rightarrow> string \<Rightarrow> string" where
  "clientChannelName E providerId = HotOstrich_CLIENT_CHANNEL_PREFIX E @ providerId"

definition new_Future :: "'a HotOstrichChannel_scheme \<Rightarrow> nat \<times> 'a HotOstrichChannel_scheme" where
  "new_Future s = (futures s, emit (Future_new (futures s)) (s\<lparr>futures := Suc (futures s)\<rparr>))"

text \<open>
  \<^verbatim>\<open>promisify\<close> (client.ts 135 to 151). \<open>now\<close> is what \<^verbatim>\<open>Date.now()\<close> returns and
  \<open>correlationId\<close> what \<^verbatim>\<open>newCorrelationId()\<close> of \<^verbatim>\<open>./utils\<close> returns. The result is the
  Future whose promise the caller awaits, and the state.
\<close>

definition request_message :: "string \<Rightarrow> string \<Rightarrow> jsval \<Rightarrow> jsval" where
  "request_message kind' correlationId' requestPayload =
     JObj [(''type'', JStr ''request''), (''kind'', JStr kind'),
           (''correlation_id'', JStr correlationId'), (''payload'', requestPayload)]"

definition promisify ::
  "env \<Rightarrow> string \<Rightarrow> string \<Rightarrow> jsval \<Rightarrow> int \<Rightarrow> string \<Rightarrow>
   'a HotOstrichChannel_scheme \<Rightarrow> nat \<times> 'a HotOstrichChannel_scheme" where
  "promisify E providerId kind' requestPayload now correlationId' s =
     (let message = request_message kind' correlationId' requestPayload;
          s1 = send E (clientChannelName E providerId) (HotOstrich_KIND E) message s;
          (future', s2) = new_Future s1;
          pendingRequest =
            \<lparr>entryTime = now, correlationId = correlationId', kind = kind', future = future'\<rparr>;
          s3 = emit (PendingRequests_push pendingRequest)
                 (s2\<lparr>pendingRequests := pendingRequests s2 @ [pendingRequest]\<rparr>)
      in (future', s3))"

text \<open>
  The typed methods (client.ts 121 to 133), up to the call of \<^verbatim>\<open>promisify\<close>; what
  follows their \<^verbatim>\<open>await\<close> runs once the promise is settled and is not modelled.
\<close>

definition getCapabilities where
  "getCapabilities E providerId = promisify E providerId ''get_capabilities'' (JObj [])"

definition submitNativeTokenTransfer where
  "submitNativeTokenTransfer E providerId payload =
     promisify E providerId ''submit_native_token_transfer'' payload"

definition submitContractCall where
  "submitContractCall E providerId payload =
     promisify E providerId ''submit_contract_call'' payload"

definition submitContractDeployment where
  "submitContractDeployment E providerId payload =
     promisify E providerId ''submit_contract_deployment'' payload"

definition signMessage where
  "signMessage E providerId payload =
     promisify E providerId ''sign_message'' (JObj [(''message'', JStr payload)])"

definition localContractCall where
  "localContractCall E providerId payload =
     promisify E providerId ''local_contract_call'' payload"

definition getSignerAddress where
  "getSignerAddress E providerId = promisify E providerId ''get_signer_address'' (JObj [])"

text \<open>
  \<^verbatim>\<open>this.pendingRequests.find(...)\<close> of client.ts 169: the callback reads
  \<^verbatim>\<open>response.correlation_id\<close> at each entry it visits, and the first entry it accepts
  is the result.
\<close>

fun find_pendingRequest :: "jsval \<Rightarrow> PendingRequest list \<Rightarrow> thrown + PendingRequest option" where
  "find_pendingRequest response [] = Inr None"
| "find_pendingRequest response (pendingRequest # rest) =
     (case js_get response ''correlation_id'' of
        Inl t \<Rightarrow> Inl t
      | Inr c \<Rightarrow>
          if JStr (correlationId pendingRequest) = c then Inr (Some pendingRequest)
          else find_pendingRequest response rest)"

text \<open>
  \<^verbatim>\<open>onHotOstrichResponse\<close> (client.ts 168 to 178). At 170 and at 176
  \<^verbatim>\<open>JSON.stringify\<close> runs before the \<^verbatim>\<open>Error\<close> is built: when it throws, that is
  what the statement throws, and at 176 \<^verbatim>\<open>reject\<close> is not reached.
\<close>

definition onHotOstrichResponse :: "env \<Rightarrow> jsval \<Rightarrow> 'a HotOstrichChannel_scheme action" where
  "onHotOstrichResponse E response s =
     (case find_pendingRequest response (pendingRequests s) of
        Inl t \<Rightarrow> (Some t, s)
      | Inr None \<Rightarrow>
          (case JSON_stringify E response of
             Inl e \<Rightarrow> (Some (Throw_Error e), s)
           | Inr x \<Rightarrow>
               (Some (Throw_Error (JsError
                  (''Received a response without finding a matching request.  Maybe it already timed out?  ''
                     @ interpolate x))), s))
      | Inr (Some pendingRequest) \<Rightarrow>
     (case js_get response ''success'' of
        Inl t \<Rightarrow> (Some t, s)
      | Inr success \<Rightarrow>
          if truthy success then
            (case js_get response ''payload'' of
               Inl t \<Rightarrow> (Some t, s)
             | Inr payload \<Rightarrow> (None, emit (Future_resolve (future pendingRequest) payload) s))
          else
            (case js_get response ''payload'' of
               Inl t \<Rightarrow> (Some t, s)
             | Inr payload \<Rightarrow>
            (case JSON_stringify E payload of
               Inl e \<Rightarrow> (Some (Throw_Error e), s)
             | Inr x \<Rightarrow>
                 (None, emit (Future_reject (future pendingRequest)
                                (JsError (''Failure response from provider.  '' @ interpolate x))) s)))))"

text \<open>\<^verbatim>\<open>onSignerAddressChanged\<close> (client.ts 188 to 190) and
  \<^verbatim>\<open>onHotOstrichNotification\<close> (180 to 186).\<close>

definition HotOstrich_onSignerAddressChanged ::
  "HotOstrichHandlers \<Rightarrow> jsval \<Rightarrow> 'a HotOstrichChannel_scheme action" where
  "HotOstrich_onSignerAddressChanged h notification s =
     (case js_get notification ''payload'' of
        Inl t \<Rightarrow> (Some t, s)
      | Inr payload \<Rightarrow>
     (case js_get payload ''address'' of
        Inl t \<Rightarrow> (Some t, s)
      | Inr address \<Rightarrow>
          invoke (Call_onSignerAddressChanged address) (onSignerAddressChanged h address) s))"

definition onHotOstrichNotification ::
  "env \<Rightarrow> HotOstrichHandlers \<Rightarrow> jsval \<Rightarrow> 'a HotOstrichChannel_scheme action" where
  "onHotOstrichNotification E h notification s =
     (case js_get notification ''kind'' of
        Inl t \<Rightarrow> (Some t, s)
      | Inr k \<Rightarrow>
          if k = JStr ''signer_address_changed'' then HotOstrich_onSignerAddressChanged h notification s
          else (Some (assertNever E k), s))"

text \<open>\<^verbatim>\<open>onProviderMessage\<close> (client.ts 158 to 164).\<close>

definition HotOstrich_onProviderMessage ::
  "env \<Rightarrow> HotOstrichHandlers \<Rightarrow> jsval \<Rightarrow> 'a HotOstrichChannel_scheme action" where
  "HotOstrich_onProviderMessage E h message s =
     (case js_get message ''type'' of
        Inl t \<Rightarrow> (Some t, s)
      | Inr ty \<Rightarrow>
          if ty = JStr ''response'' then onHotOstrichResponse E message s
          else if ty = JStr ''notification'' then onHotOstrichNotification E h message s
          else (Some (assertNever E message), s))"

text \<open>The listener of a HotOstrichChannel: \<^verbatim>\<open>onMessage\<close> with the members of 153 to 156.\<close>

definition HotOstrich_onMessage ::
  "env \<Rightarrow> string \<Rightarrow> HotOstrichHandlers \<Rightarrow> jsval \<Rightarrow> 'a HotOstrichChannel_scheme action" where
  "HotOstrich_onMessage E providerId h =
     onMessage E (providerChannelName E providerId) (HotOstrich_KIND E)
       (HotOstrich_onProviderMessage E h) (HotOstrich_onError h)"

section \<open>Inputs of the statements\<close>

text \<open>
  \<open>envelope_for channel' kind' data message\<close>: the \<^verbatim>\<open>data\<close> of an event is an object
  whose \<^verbatim>\<open>ethereum\<close> property is an object with the given \<^verbatim>\<open>channel\<close>, \<^verbatim>\<open>kind\<close>
  and \<^verbatim>\<open>message\<close> (and possibly further properties).
\<close>

definition envelope_for :: "string \<Rightarrow> string \<Rightarrow> jsval \<Rightarrow> jsval \<Rightarrow> bool" where
  "envelope_for channel' kind' data message =
     (case data of
        JObj d \<Rightarrow>
          (case map_of d ''ethereum'' of
             Some (JObj e) \<Rightarrow>
               map_of e ''channel'' = Some (JStr channel') \<and>
               map_of e ''kind'' = Some (JStr kind') \<and>
               map_of e ''message'' = Some message
           | _ \<Rightarrow> False)
      | _ \<Rightarrow> False)"

text \<open>
  What the JavaScript runtime does on the modelled values, for the environment the
  statements are evaluated at. \<open>stringify\<close> is \<^verbatim>\<open>JSON.stringify\<close> for ASCII strings,
  integers of less than 22 digits and objects whose keys are distinct and no array
  indices: a \<^verbatim>\<open>BigInt\<close> anywhere makes it throw, a property that is \<^verbatim>\<open>undefined\<close> is
  left out.
\<close>

fun decimal :: "nat \<Rightarrow> string" where
  "decimal n =
     (if n < 10 then [char_of (48 + n)]
      else decimal (n div 10) @ [char_of (48 + n mod 10)])"

definition decimal_int :: "int \<Rightarrow> string" where
  "decimal_int i = (if i < 0 then ''-'' @ decimal (nat (- i)) else decimal (nat i))"

definition hex_digit :: "nat \<Rightarrow> char" where
  "hex_digit n = (if n < 10 then char_of (48 + n) else char_of (87 + n))"

definition quote_char :: "char \<Rightarrow> string" where
  "quote_char c =
     (if c = CHR 0x22 then [CHR 0x5C, CHR 0x22]
      else if c = CHR 0x5C then [CHR 0x5C, CHR 0x5C]
      else if c = CHR 0x08 then [CHR 0x5C, CHR ''b'']
      else if c = CHR 0x09 then [CHR 0x5C, CHR ''t'']
      else if c = CHR 0x0A then [CHR 0x5C, CHR ''n'']
      else if c = CHR 0x0C then [CHR 0x5C, CHR ''f'']
      else if c = CHR 0x0D then [CHR 0x5C, CHR ''r'']
      else if of_char c < (32 :: nat) then
        [CHR 0x5C, CHR ''u'', CHR ''0'', CHR ''0'',
         hex_digit (of_char c div 16), hex_digit (of_char c mod 16)]
      else [c])"

definition quote :: "string \<Rightarrow> string" where
  "quote s = [CHR 0x22] @ concat (map quote_char s) @ [CHR 0x22]"

fun members :: "(string \<times> (js_error + string option)) list \<Rightarrow> js_error + string list" where
  "members [] = Inr []"
| "members ((k, r) # rest) =
     (case r of
        Inl e \<Rightarrow> Inl e
      | Inr x \<Rightarrow>
          (case members rest of
             Inl e \<Rightarrow> Inl e
           | Inr ms \<Rightarrow> Inr (case x of None \<Rightarrow> ms | Some t \<Rightarrow> (quote k @ '':'' @ t) # ms)))"

fun join :: "string list \<Rightarrow> string" where
  "join [] = []"
| "join [m] = m"
| "join (m # ms) = m @ '','' @ join ms"

fun stringify :: "jsval \<Rightarrow> js_error + string option" where
  "stringify JUndefined = Inr None"
| "stringify JNull = Inr (Some ''null'')"
| "stringify (JBool b) = Inr (Some (if b then ''true'' else ''false''))"
| "stringify (JNum n) = Inr (Some (decimal_int n))"
| "stringify (JBigInt n) = Inl JsTypeError"
| "stringify (JStr str) = Inr (Some (quote str))"
| "stringify (JObj kvs) =
     (case members (map (\<lambda>(k, v). (k, stringify v)) kvs) of
        Inl e \<Rightarrow> Inl e
      | Inr ms \<Rightarrow> Inr (Some (''{'' @ join ms @ ''}'')))"

text \<open>
  The conversion to a property key: an object received over the bus has no method of its
  own, so it converts to \<^verbatim>\<open>[object Object]\<close> through \<^verbatim>\<open>Object.prototype.toString\<close>
  unless a property \<^verbatim>\<open>toString\<close> of its own hides that method, in which case no
  primitive is found and a \<^verbatim>\<open>TypeError\<close> is thrown.
\<close>

fun to_property_key :: "jsval \<Rightarrow> js_error + string" where
  "to_property_key JUndefined = Inr ''undefined''"
| "to_property_key JNull = Inr ''null''"
| "to_property_key (JBool b) = Inr (if b then ''true'' else ''false'')"
| "to_property_key (JNum n) = Inr (decimal_int n)"
| "to_property_key (JBigInt n) = Inr (decimal_int n)"
| "to_property_key (JStr str) = Inr str"
| "to_property_key (JObj kvs) =
     (if map_of kvs ''toString'' = None then Inr ''[object Object]'' else Inl JsTypeError)"

definition example_env :: env where
  "example_env =
     \<lparr>JSON_stringify = stringify,
      ToPropertyKey = to_property_key,
      assertNever = (\<lambda>v. Throw_Error (JsError ''assertNever'')),
      parent_distinct = False,
      Handshake_PROVIDER_CHANNEL_NAME = ''HandshakeProvider'',
      Handshake_CLIENT_CHANNEL_NAME = ''HandshakeClient'',
      Handshake_KIND = ''handshake'',
      HotOstrich_PROVIDER_CHANNEL_PREFIX = ''HotOstrichProvider-'',
      HotOstrich_CLIENT_CHANNEL_PREFIX = ''HotOstrichClient-'',
      HotOstrich_KIND = ''hot_ostrich''\<rparr>"

text \<open>Handlers that return, and concrete inputs for a provider called \<open>p\<close>.\<close>

definition example_handlers :: HotOstrichHandlers where
  "example_handlers = \<lparr>HotOstrich_onError = (\<lambda>e. None), onSignerAddressChanged = (\<lambda>a. None)\<rparr>"

definition example_response :: "string \<Rightarrow> bool \<Rightarrow> jsval \<Rightarrow> (string \<times> jsval) list" where
  "example_response c success payload =
     [(''type'', JStr ''response''), (''kind'', JStr ''get_signer_address''),
      (''correlation_id'', JStr c), (''success'', JBool success), (''payload'', payload)]"

definition example_event :: "string \<Rightarrow> bool \<Rightarrow> jsval \<Rightarrow> jsval" where
  "example_event c success payload =
     EthereumEnvelope ''HotOstrichProvider-p'' ''hot_ostrich''
       (JObj (example_response c success payload))"

text \<open>A channel on which \<^verbatim>\<open>getSignerAddress\<close> was called once, with correlation id \<open>X\<close>.\<close>

definition example_pending :: HotOstrichChannel where
  "example_pending =
     snd (getSignerAddress example_env ''p'' 0 ''X'' HotOstrichChannel_constructor)"

text \<open>
  A notification that the signer changed, handlers whose callback throws a
  \<^verbatim>\<open>BigInt\<close>, and handlers whose \<^verbatim>\<open>onError\<close> throws.
\<close>

definition example_notification :: jsval where
  "example_notification =
     EthereumEnvelope ''HotOstrichProvider-p'' ''hot_ostrich''
       (JObj [(''type'', JStr ''notification''), (''kind'', JStr ''signer_address_changed''),
              (''payload'', JObj [(''address'', JStr ''0xab'')])])"

definition throwing_callback :: HotOstrichHandlers where
  "throwing_callback =
     \<lparr>HotOstrich_onError = (\<lambda>e. None),
      onSignerAddressChanged = (\<lambda>a. Some (Throw_Value (JBigInt 1)))\<rparr>"

definition throwing_onError :: HotOstrichHandlers where
  "throwing_onError =
     \<lparr>HotOstrich_onError = (\<lambda>e. Some (Throw_Value (JStr ''onError failed''))),
      onSignerAddressChanged = (\<lambda>a. None)\<rparr>"

text \<open>A handshake channel that knows two providers, and an announcement of the first.\<close>

definition example_announcement :: "string \<Rightarrow> string \<Rightarrow> (string \<times> jsval) list" where
  "example_announcement provider_id name =
     [(''provider_id'', JStr provider_id), (''friendly_name'', JStr name)]"

definition example_directory :: HandshakeChannel where
  "example_directory =
     \<lparr>listening = True, trace = [],
      knownProviders =
        [''p1'' \<mapsto> JObj (example_announcement ''p1'' ''old''),
         ''p2'' \<mapsto> JObj (example_announcement ''p2'' ''other'')],
      knownProviders_prototype = None\<rparr>"

definition example_announcement_message :: "(string \<times> jsval) list" where
  "example_announcement_message =
     [(''type'', JStr ''notification''), (''kind'', JStr ''provider_announcement''),
      (''payload'', JObj (example_announcement ''p1'' ''new''))]"

definition example_handshake_handlers :: HandshakeHandlers where
  "example_handshake_handlers =
     \<lparr>Handshake_onError = (\<lambda>e. None), onProviderAnnounced = (\<lambda>a. None)\<rparr>"

section \<open>Auxiliary facts\<close>

declare decimal.simps [simp del]

lemma envelope_forE:
  assumes "envelope_for pc k data m"
  obtains d e where "data = JObj d" and "map_of d ''ethereum'' = Some (JObj e)"
    and "map_of e ''channel'' = Some (JStr pc)" and "map_of e ''kind'' = Some (JStr k)"
    and "map_of e ''message'' = Some m"
proof (cases data)
  case (JObj d)
  with assms obtain v where v: "map_of d ''ethereum'' = Some v"
    by (auto simp: envelope_for_def split: option.splits)
  with assms JObj show ?thesis
    by (cases v) (auto simp: envelope_for_def intro: that)
qed (use assms in \<open>simp_all add: envelope_for_def\<close>)

lemma onMessage_try_envelope:
  assumes "envelope_for pc k data m" and "isProviderMessage m = Inr True"
  shows "onMessage_try pc k opm data s = opm m s"
proof -
  from assms(1) obtain d e where "data = JObj d" "map_of d ''ethereum'' = Some (JObj e)"
    "map_of e ''channel'' = Some (JStr pc)" "map_of e ''kind'' = Some (JStr k)"
    "map_of e ''message'' = Some m"
    by (rule envelope_forE)
  with assms(2) show ?thesis
    by (simp add: onMessage_try_def isEthereumMessageEvent_def isT_def own_property_def)
qed

lemma find_pendingRequest_JObj:
  "find_pendingRequest (JObj kvs) ps =
     Inr (find (\<lambda>p. JStr (correlationId p) = own_property kvs ''correlation_id'') ps)"
  by (induction ps) auto

lemma isProviderMessage_JObj:
  "isProviderMessage (JObj kvs) =
     Inr (own_property kvs ''type'' = JStr ''notification'' \<or> own_property kvs ''type'' = JStr ''response'')"
  by (simp add: isProviderMessage_def)

lemma normalize_Error: "normalize E (Throw_Error e) = Inr e"
  by (simp add: normalize_def)

text \<open>
  The catch of \<^verbatim>\<open>onMessage\<close>, where the argument for \<^verbatim>\<open>onError\<close> gets built:
  \<^verbatim>\<open>onError\<close> is called once with it, and what leaves the listener is what that call
  yields.
\<close>

lemma onMessage_catch:
  fixes s :: "'a channel_scheme"
  assumes "onMessage_try providerChannelName' kind' onProviderMessage data s = (Some error, s1)"
    and "normalize E error = Inr e"
  shows "onMessage E providerChannelName' kind' onProviderMessage onError' data s
           = (onError' e, emit (Call_onError e) s1)"
  using assms by (simp add: onMessage_def invoke_def)

lemma onHotOstrichResponse_resolve:
  assumes "find (\<lambda>p. JStr (correlationId p) = own_property kvs ''correlation_id'') (pendingRequests s) = Some p"
    and "truthy (own_property kvs ''success'')"
  shows "onHotOstrichResponse E (JObj kvs) s =
           (None, emit (Future_resolve (future p) (own_property kvs ''payload'')) s)"
  using assms by (simp add: onHotOstrichResponse_def find_pendingRequest_JObj)

lemma onHotOstrichResponse_reject:
  assumes "find (\<lambda>p. JStr (correlationId p) = own_property kvs ''correlation_id'') (pendingRequests s) = Some p"
    and "\<not> truthy (own_property kvs ''success'')"
    and "JSON_stringify E (own_property kvs ''payload'') = Inr x"
  shows "onHotOstrichResponse E (JObj kvs) s =
           (None, emit (Future_reject (future p)
                          (JsError (''Failure response from provider.  '' @ interpolate x))) s)"
  using assms by (simp add: onHotOstrichResponse_def find_pendingRequest_JObj)

lemma onHotOstrichResponse_reject_throws:
  assumes "find (\<lambda>p. JStr (correlationId p) = own_property kvs ''correlation_id'') (pendingRequests s) = Some p"
    and "\<not> truthy (own_property kvs ''success'')"
    and "JSON_stringify E (own_property kvs ''payload'') = Inl e"
  shows "onHotOstrichResponse E (JObj kvs) s = (Some (Throw_Error e), s)"
  using assms by (simp add: onHotOstrichResponse_def find_pendingRequest_JObj)

lemma onHotOstrichResponse_not_found:
  assumes "find (\<lambda>p. JStr (correlationId p) = own_property kvs ''correlation_id'') (pendingRequests s) = None"
  shows "onHotOstrichResponse E (JObj kvs) s =
     (Some (Throw_Error
        (case JSON_stringify E (JObj kvs) of
           Inl e \<Rightarrow> e
         | Inr x \<Rightarrow> JsError
             (''Received a response without finding a matching request.  Maybe it already timed out?  ''
                @ interpolate x))), s)"
  using assms by (simp add: onHotOstrichResponse_def find_pendingRequest_JObj split: sum.splits)

lemma HotOstrich_onMessage_response:
  assumes "envelope_for (providerChannelName E providerId) (HotOstrich_KIND E) data (JObj kvs)"
    and "own_property kvs ''type'' = JStr ''response''"
  shows "HotOstrich_onMessage E providerId h data s =
     (case onHotOstrichResponse E (JObj kvs) s of
        (None, s1) \<Rightarrow> (None, s1)
      | (Some error, s1) \<Rightarrow>
          (case normalize E error of
             Inl e \<Rightarrow> (Some (Throw_Error e), s1)
           | Inr e \<Rightarrow> invoke (Call_onError e) (HotOstrich_onError h e) s1))"
  using assms
  by (simp add: HotOstrich_onMessage_def onMessage_def onMessage_try_envelope
      isProviderMessage_JObj HotOstrich_onProviderMessage_def)

text \<open>
  A response with \<^verbatim>\<open>success\<close> \<^verbatim>\<open>false\<close> for a pending request, with a payload on which
  \<^verbatim>\<open>JSON.stringify\<close> returns \<open>x\<close>: the listener completes, and all it does is the call
  of \<^verbatim>\<open>reject\<close> on the Future of that request, with the error whose message ends in
  \<open>x\<close>.
\<close>

lemma HotOstrich_onMessage_failure:
  fixes s :: "'a HotOstrichChannel_scheme"
  assumes "envelope_for (providerChannelName E providerId) (HotOstrich_KIND E) data (JObj kvs)"
    and "own_property kvs ''type'' = JStr ''response''"
    and "own_property kvs ''success'' = JBool False"
    and "find (\<lambda>p. JStr (correlationId p) = own_property kvs ''correlation_id'')
           (pendingRequests s) = Some p"
    and "JSON_stringify E (own_property kvs ''payload'') = Inr x"
  shows "HotOstrich_onMessage E providerId h data s =
           (None, emit (Future_reject (future p)
                          (JsError (''Failure response from provider.  '' @ interpolate x))) s)"
  using assms(3-5)
  by (simp add: HotOstrich_onMessage_response [OF assms(1,2)] onHotOstrichResponse_reject)

lemma pendingRequests_emit: "pendingRequests (emit e s) = pendingRequests s"
  by (simp add: emit_def)

lemma trace_emit: "trace (emit e s) = trace s @ [e]"
  by (simp add: emit_def)

lemma futures_emit: "futures (emit e s) = futures s"
  by (simp add: emit_def)

lemma pendingRequests_onHotOstrichResponse:
  "pendingRequests (snd (onHotOstrichResponse E response s)) = pendingRequests s"
  by (simp add: onHotOstrichResponse_def pendingRequests_emit split: sum.splits option.splits)

lemma pendingRequests_HotOstrich_onMessage_response:
  assumes "envelope_for (providerChannelName E providerId) (HotOstrich_KIND E) data (JObj kvs)"
    and "own_property kvs ''type'' = JStr ''response''"
  shows "pendingRequests (snd (HotOstrich_onMessage E providerId h data s)) = pendingRequests s"
proof -
  obtain r s1 where r: "onHotOstrichResponse E (JObj kvs) s = (r, s1)"
    by (cases "onHotOstrichResponse E (JObj kvs) s")
  with pendingRequests_onHotOstrichResponse [of E "JObj kvs" s]
  have "pendingRequests s1 = pendingRequests s" by simp
  with r show ?thesis
    by (simp add: HotOstrich_onMessage_response [OF assms] invoke_def pendingRequests_emit
        split: option.splits sum.splits)
qed

lemma pendingRequests_send: "pendingRequests (send E c k m s) = pendingRequests s"
  by (simp add: send_def Let_def pendingRequests_emit)

lemma futures_send: "futures (send E c k m s) = futures s"
  by (simp add: send_def Let_def futures_emit)

lemma trace_send:
  "trace (send E c k m s) =
     trace s @ (if parent_distinct E then [Parent_postMessage (EthereumEnvelope c k m)] else [])
       @ [Window_postMessage (EthereumEnvelope c k m)]"
  by (simp add: send_def Let_def trace_emit)

lemma fst_promisify: "fst (promisify E providerId k payload now c s) = futures s"
  by (simp add: promisify_def Let_def new_Future_def futures_send)

lemma pendingRequests_promisify:
  "pendingRequests (snd (promisify E providerId k payload now c s)) =
     pendingRequests s @ [\<lparr>entryTime = now, correlationId = c, kind = k, future = futures s\<rparr>]"
  by (simp add: promisify_def Let_def new_Future_def pendingRequests_emit pendingRequests_send futures_send)

lemma futures_promisify:
  "futures (snd (promisify E providerId k payload now c s)) = Suc (futures s)"
  by (simp add: promisify_def Let_def new_Future_def futures_emit futures_send)

lemma trace_promisify:
  "trace (snd (promisify E providerId k payload now c s)) =
     trace s
     @ (if parent_distinct E
        then [Parent_postMessage (EthereumEnvelope (clientChannelName E providerId) (HotOstrich_KIND E) (request_message k c payload))]
        else [])
     @ [Window_postMessage (EthereumEnvelope (clientChannelName E providerId) (HotOstrich_KIND E) (request_message k c payload)),
        Future_new (futures s),
        PendingRequests_push \<lparr>entryTime = now, correlationId = c, kind = k, future = futures s\<rparr>]"
  by (simp add: promisify_def Let_def new_Future_def trace_emit trace_send futures_send)

lemma find_fresh_append:
  assumes "\<forall>p \<in> set ps. \<not> P p"
  shows "find P (ps @ qs) = find P qs"
  using assms by (induction ps) auto

lemma example_envelope_for:
  "envelope_for (providerChannelName example_env ''p'') (HotOstrich_KIND example_env)
     (example_event c success payload) (JObj (example_response c success payload))"
  by (simp add: envelope_for_def example_event_def EthereumEnvelope_def providerChannelName_def
      example_env_def)

lemma example_response_properties:
  "own_property (example_response c success payload) ''type'' = JStr ''response''"
  "own_property (example_response c success payload) ''correlation_id'' = JStr c"
  "own_property (example_response c success payload) ''success'' = JBool success"
  "own_property (example_response c success payload) ''payload'' = payload"
  by (simp_all add: own_property_def example_response_def)

lemma example_pending_table:
  "pendingRequests example_pending =
     [\<lparr>entryTime = 0, correlationId = ''X'', kind = ''get_signer_address'', future = 0\<rparr>]"
  by (simp add: example_pending_def getSignerAddress_def pendingRequests_promisify
      HotOstrichChannel_constructor_def Channel_constructor_def)

lemma example_pending_trace:
  "trace example_pending =
     [Window_postMessage (EthereumEnvelope ''HotOstrichClient-p'' ''hot_ostrich''
        (request_message ''get_signer_address'' ''X'' (JObj []))),
      Future_new 0,
      PendingRequests_push \<lparr>entryTime = 0, correlationId = ''X'', kind = ''get_signer_address'', future = 0\<rparr>]"
  by (simp add: example_pending_def getSignerAddress_def trace_promisify
      HotOstrichChannel_constructor_def Channel_constructor_def example_env_def clientChannelName_def)

lemma example_notification_envelope_for:
  "envelope_for (providerChannelName example_env ''p'') (HotOstrich_KIND example_env)
     example_notification
     (JObj [(''type'', JStr ''notification''), (''kind'', JStr ''signer_address_changed''),
            (''payload'', JObj [(''address'', JStr ''0xab'')])])"
  by (simp add: envelope_for_def example_notification_def EthereumEnvelope_def
      providerChannelName_def example_env_def)

lemma example_JSON_stringify: "JSON_stringify example_env = stringify"
  by (simp add: example_env_def)

lemma knownProviders_send: "knownProviders (send E c k m s) = knownProviders s"
  by (simp add: send_def Let_def emit_def)

lemma Handshake_onMessage_announcement:
  assumes "envelope_for (Handshake_PROVIDER_CHANNEL_NAME E) (Handshake_KIND E) data (JObj kvs)"
    and "own_property kvs ''type'' = JStr ''notification''"
    and "own_property kvs ''kind'' = JStr ''provider_announcement''"
    and "own_property kvs ''payload'' = JObj announcement"
    and "property_key E (own_property announcement ''provider_id'') = Inr k"
  shows "Handshake_onMessage E h data s =
     (let s1 = emit (Call_onProviderAnnounced (JObj announcement))
                 (knownProviders_assign k (JObj announcement) s)
      in case onProviderAnnounced h (JObj announcement) of
           None \<Rightarrow> (None, s1)
         | Some t \<Rightarrow>
             (case normalize E t of
                Inl e \<Rightarrow> (Some (Throw_Error e), s1)
              | Inr e \<Rightarrow> (Handshake_onError h e, emit (Call_onError e) s1)))"
  using assms
  by (simp add: Handshake_onMessage_def onMessage_def onMessage_try_envelope isProviderMessage_JObj
      Handshake_onProviderMessage_def Handshake_onNotification_def onProviderAnnouncement_def
      invoke_def Let_def split: option.splits sum.splits)

text \<open>
  What the filter of \<^verbatim>\<open>onMessage\<close> drops without a call of any handler: a \<^verbatim>\<open>data\<close>
  that is no object and not \<^verbatim>\<open>null\<close>, an object without the \<^verbatim>\<open>ethereum\<close> property
  or whose \<^verbatim>\<open>ethereum\<close> is no object and not \<^verbatim>\<open>null\<close>, an envelope object with
  another \<^verbatim>\<open>channel\<close> or another \<^verbatim>\<open>kind\<close>, and a message object of another
  \<^verbatim>\<open>type\<close>.
\<close>

lemma onMessage_silent:
  fixes s :: "'a channel_scheme"
  shows "js_typeof data \<noteq> ''object'' \<Longrightarrow>
           onMessage E pc k opm onError' data s = (None, s)"
    and "map_of d ''ethereum'' = None \<Longrightarrow>
           onMessage E pc k opm onError' (JObj d) s = (None, s)"
    and "map_of d ''ethereum'' = Some v \<Longrightarrow> js_typeof v \<noteq> ''object'' \<Longrightarrow>
           onMessage E pc k opm onError' (JObj d) s = (None, s)"
    and "map_of d ''ethereum'' = Some (JObj e) \<Longrightarrow> own_property e ''channel'' \<noteq> JStr pc \<Longrightarrow>
           onMessage E pc k opm onError' (JObj d) s = (None, s)"
    and "map_of d ''ethereum'' = Some (JObj e) \<Longrightarrow> own_property e ''kind'' \<noteq> JStr k \<Longrightarrow>
           onMessage E pc k opm onError' (JObj d) s = (None, s)"
    and "map_of d ''ethereum'' = Some (JObj e) \<Longrightarrow> own_property e ''message'' = JObj m \<Longrightarrow>
           own_property m ''type'' \<noteq> JStr ''notification'' \<Longrightarrow>
           own_property m ''type'' \<noteq> JStr ''response'' \<Longrightarrow>
           onMessage E pc k opm onError' (JObj d) s = (None, s)"
  by (auto simp: onMessage_def onMessage_try_def isEthereumMessageEvent_def isT_def
      isProviderMessage_def own_property_def split: bool.splits)

section \<open>The pending-request table\<close>

text \<open>
  C1, as the code has it. The claim is that the entry of a pending request is no longer
  tracked once a response with its correlation id was received, so that a second response
  with that id takes the branch of no matching request and exactly one settlement occurs.
  The code never removes an entry. For an event that carries, for this channel, a response
  object whose correlation id is that of a pending request \<open>p\<close> (the first entry with that
  id), the listener leaves the pending-request table as it was, so that a second response
  with that id finds \<open>p\<close> again. Where the settling call is reached (\<^verbatim>\<open>success\<close> is
  truthy, or \<^verbatim>\<open>JSON.stringify\<close> returns on the payload of the failure), it is the first
  effect of the delivery, and the first effect of a second delivery of the same response
  is the same call on the same Future again.
\<close>

theorem C1_response_keeps_entry:
  fixes s :: "'a HotOstrichChannel_scheme"
  assumes "envelope_for (providerChannelName E providerId) (HotOstrich_KIND E) data (JObj kvs)"
    and "own_property kvs ''type'' = JStr ''response''"
    and "find (\<lambda>p. JStr (correlationId p) = own_property kvs ''correlation_id'')
           (pendingRequests s) = Some p"
  shows "pendingRequests (snd (HotOstrich_onMessage E providerId h data s)) = pendingRequests s
       \<and> find (\<lambda>p. JStr (correlationId p) = own_property kvs ''correlation_id'')
           (pendingRequests (snd (HotOstrich_onMessage E providerId h data s))) = Some p
       \<and> (truthy (own_property kvs ''success'')
            \<or> JSON_stringify E (own_property kvs ''payload'') = Inr x
          \<longrightarrow> (let call =
                     (if truthy (own_property kvs ''success'')
                      then Future_resolve (future p) (own_property kvs ''payload'')
                      else Future_reject (future p)
                             (JsError (''Failure response from provider.  '' @ interpolate x)));
                   s1 = snd (HotOstrich_onMessage E providerId h data s);
                   s2 = snd (HotOstrich_onMessage E providerId h data s1)
               in take (length (trace s) + 1) (trace s1) = trace s @ [call]
                \<and> take (length (trace s1) + 1) (trace s2) = trace s1 @ [call]))"
proof -
  let ?call = "if truthy (own_property kvs ''success'')
     then Future_resolve (future p) (own_property kvs ''payload'')
     else Future_reject (future p) (JsError (''Failure response from provider.  '' @ interpolate x))"
  have kept: "pendingRequests (snd (HotOstrich_onMessage E providerId h data t)) = pendingRequests t"
    for t :: "'a HotOstrichChannel_scheme"
    by (rule pendingRequests_HotOstrich_onMessage_response [OF assms(1,2)])
  have step: "HotOstrich_onMessage E providerId h data t = (None, emit ?call t)"
    if "pendingRequests t = pendingRequests s"
      and "truthy (own_property kvs ''success'')
           \<or> JSON_stringify E (own_property kvs ''payload'') = Inr x"
    for t :: "'a HotOstrichChannel_scheme"
  proof (cases "truthy (own_property kvs ''success'')")
    case True
    with assms(3) that(1) show ?thesis
      by (simp add: HotOstrich_onMessage_response [OF assms(1,2)] onHotOstrichResponse_resolve)
  next
    case False
    with assms(3) that show ?thesis
      by (simp add: HotOstrich_onMessage_response [OF assms(1,2)] onHotOstrichResponse_reject)
  qed
  show ?thesis
    using assms(3) by (auto simp: kept step Let_def trace_emit pendingRequests_emit)
qed

theorem C1_response_keeps_entry_witness:
  "find (\<lambda>p. JStr (correlationId p) = own_property (example_response ''X'' False JNull) ''correlation_id'')
     (pendingRequests example_pending)
     = Some \<lparr>entryTime = 0, correlationId = ''X'', kind = ''get_signer_address'', future = 0\<rparr>
   \<and> JSON_stringify example_env (own_property (example_response ''X'' False JNull) ''payload'')
     = Inr (Some ''null'')
   \<and> take (length (trace example_pending) + 1)
       (trace (snd (HotOstrich_onMessage example_env ''p'' example_handlers
          (example_event ''X'' False JNull) example_pending)))
     = trace example_pending @ [Future_reject 0 (JsError ''Failure response from provider.  null'')]
   \<and> take (length (trace (snd (HotOstrich_onMessage example_env ''p'' example_handlers
          (example_event ''X'' False JNull) example_pending))) + 1)
       (trace (snd (HotOstrich_onMessage example_env ''p'' example_handlers
          (example_event ''X'' False JNull)
          (snd (HotOstrich_onMessage example_env ''p'' example_handlers
             (example_event ''X'' False JNull) example_pending)))))
     = trace (snd (HotOstrich_onMessage example_env ''p'' example_handlers
          (example_event ''X'' False JNull) example_pending))
       @ [Future_reject 0 (JsError ''Failure response from provider.  null'')]"
proof -
  have found: "find (\<lambda>p. JStr (correlationId p) = own_property (example_response ''X'' False JNull) ''correlation_id'')
     (pendingRequests example_pending)
     = Some \<lparr>entryTime = 0, correlationId = ''X'', kind = ''get_signer_address'', future = 0\<rparr>"
    by (simp add: example_response_properties example_pending_table)
  have serialized: "JSON_stringify example_env (own_property (example_response ''X'' False JNull) ''payload'')
     = Inr (Some ''null'')"
    by (simp add: example_response_properties example_JSON_stringify)
  from C1_response_keeps_entry [OF
      example_envelope_for [of "''X''" False JNull]
      example_response_properties(1) [of "''X''" False JNull] found,
      where h = example_handlers and x = "Some ''null''"] serialized
  show ?thesis
    using found
    by (simp add: Let_def example_response_properties interpolate_def)
qed

text \<open>
  C1 fails as stated: after \<^verbatim>\<open>getSignerAddress\<close> with correlation id \<open>X\<close> and a
  successful response for \<open>X\<close>, the entry is still in the table, and a second response
  for \<open>X\<close> completes without any error and calls \<^verbatim>\<open>resolve\<close> on Future 0 a second
  time.
\<close>

theorem C1_counterexample:
  "pendingRequests (snd (HotOstrich_onMessage example_env ''p'' example_handlers
      (example_event ''X'' True JNull) example_pending))
     = [\<lparr>entryTime = 0, correlationId = ''X'', kind = ''get_signer_address'', future = 0\<rparr>]
   \<and> fst (HotOstrich_onMessage example_env ''p'' example_handlers (example_event ''X'' True JNull)
       (snd (HotOstrich_onMessage example_env ''p'' example_handlers
          (example_event ''X'' True JNull) example_pending))) = None
   \<and> trace (snd (HotOstrich_onMessage example_env ''p'' example_handlers (example_event ''X'' True JNull)
       (snd (HotOstrich_onMessage example_env ''p'' example_handlers
          (example_event ''X'' True JNull) example_pending))))
     = trace example_pending @ [Future_resolve 0 JNull, Future_resolve 0 JNull]"
  by (simp add: HotOstrich_onMessage_response [OF example_envelope_for example_response_properties(1)]
      onHotOstrichResponse_resolve example_response_properties example_pending_table
      pendingRequests_emit trace_emit)

text \<open>
  C2, as the code has it. The claim is that the pending-request entry is inserted strictly
  before the request envelope is sent. In \<^verbatim>\<open>promisify\<close>, which every typed method
  calls, the envelope is posted first (to the parent window when there is one, then to the
  window itself), then the Future is created, and the entry for the correlation id is
  appended to the pending-request table last, all within the one call.
\<close>

theorem C2_sent_then_inserted:
  fixes s :: "'a HotOstrichChannel_scheme"
  shows
  "(let ethereumEnvelope = EthereumEnvelope (clientChannelName E providerId) (HotOstrich_KIND E)
          (request_message kind' correlationId' requestPayload);
        pendingRequest =
          \<lparr>entryTime = now, correlationId = correlationId', kind = kind', future = futures s\<rparr>;
        s' = snd (promisify E providerId kind' requestPayload now correlationId' s)
    in trace s' = trace s
         @ (if parent_distinct E then [Parent_postMessage ethereumEnvelope] else [])
         @ [Window_postMessage ethereumEnvelope, Future_new (futures s),
            PendingRequests_push pendingRequest]
     \<and> pendingRequests s' = pendingRequests s @ [pendingRequest]
     \<and> fst (promisify E providerId kind' requestPayload now correlationId' s) = futures s)"
  by (simp add: Let_def trace_promisify pendingRequests_promisify fst_promisify)

text \<open>
  C2 fails as stated: on a new channel, \<^verbatim>\<open>getCapabilities\<close> with correlation id \<open>X\<close>
  posts the request before it pushes the entry.
\<close>

theorem C2_counterexample:
  "trace (snd (getCapabilities example_env ''p'' 0 ''X'' HotOstrichChannel_constructor))
     = [Window_postMessage (EthereumEnvelope ''HotOstrichClient-p'' ''hot_ostrich''
          (request_message ''get_capabilities'' ''X'' (JObj []))),
        Future_new 0,
        PendingRequests_push
          \<lparr>entryTime = 0, correlationId = ''X'', kind = ''get_capabilities'', future = 0\<rparr>]"
  by (simp add: getCapabilities_def trace_promisify HotOstrichChannel_constructor_def
      Channel_constructor_def example_env_def clientChannelName_def)

section \<open>The filter and the catch of the listener\<close>

text \<open>
  C3, at the input where the code departs from it. The claim is that an event whose
  payload is not an envelope-shaped object is ignored without a call of \<^verbatim>\<open>onError\<close>.
  For an event whose \<^verbatim>\<open>data\<close> is \<^verbatim>\<open>null\<close>, \<^verbatim>\<open>typeof\<close> yields \<^verbatim>\<open>object\<close>, the
  \<^verbatim>\<open>in\<close> test throws a \<^verbatim>\<open>TypeError\<close>, and the listener of any Channel calls
  \<^verbatim>\<open>onError\<close> with it.
\<close>

theorem C3_null_data_calls_onError:
  fixes s :: "'a channel_scheme"
  shows "onMessage E providerChannelName' kind' onProviderMessage onError' JNull s
     = (onError' JsTypeError, emit (Call_onError JsTypeError) s)"
  by (simp add: onMessage_def onMessage_try_def isEthereumMessageEvent_def invoke_def
      normalize_def)

text \<open>
  C4, at an input where the code departs from it. The claim is that every exception
  thrown during the dispatch is caught and handed to \<^verbatim>\<open>onError\<close>, a value that is
  neither an \<^verbatim>\<open>Error\<close> nor a string as \<^verbatim>\<open>new Error(JSON.stringify(value))\<close>, and
  that none leaves the listener. When the callback \<^verbatim>\<open>onSignerAddressChanged\<close> throws
  the \<^verbatim>\<open>BigInt\<close> 1 on a notification, \<^verbatim>\<open>JSON.stringify\<close> throws a \<^verbatim>\<open>TypeError\<close>
  inside the \<^verbatim>\<open>catch\<close> block: \<^verbatim>\<open>onError\<close> is not called, and the \<^verbatim>\<open>TypeError\<close>
  leaves the listener.
\<close>

theorem C4_stringify_throws_in_catch:
  "onMessage_try (providerChannelName example_env ''p'') (HotOstrich_KIND example_env)
      (HotOstrich_onProviderMessage example_env throwing_callback) example_notification
      example_pending
     = (Some (Throw_Value (JBigInt 1)),
        emit (Call_onSignerAddressChanged (JStr ''0xab'')) example_pending)
   \<and> HotOstrich_onMessage example_env ''p'' throwing_callback example_notification example_pending
     = (Some (Throw_Error JsTypeError),
        emit (Call_onSignerAddressChanged (JStr ''0xab'')) example_pending)"
proof -
  have thrown: "onMessage_try (providerChannelName example_env ''p'') (HotOstrich_KIND example_env)
      (HotOstrich_onProviderMessage example_env throwing_callback) example_notification
      example_pending
     = (Some (Throw_Value (JBigInt 1)),
        emit (Call_onSignerAddressChanged (JStr ''0xab'')) example_pending)"
    by (simp add: onMessage_try_envelope [OF example_notification_envelope_for]
        isProviderMessage_JObj own_property_def HotOstrich_onProviderMessage_def
        onHotOstrichNotification_def HotOstrich_onSignerAddressChanged_def invoke_def
        throwing_callback_def)
  then show ?thesis
    by (simp add: HotOstrich_onMessage_def onMessage_def normalize_def example_JSON_stringify)
qed

text \<open>
  C10: when the \<^verbatim>\<open>onError\<close> that the catch block calls throws itself, what it throws
  leaves the listener and reaches the dispatch loop of the window.
\<close>

theorem C10_onError_throws:
  fixes s :: "'a channel_scheme"
  assumes "onMessage_try providerChannelName' kind' onProviderMessage data s = (Some error, s1)"
    and "normalize E error = Inr e"
    and "onError' e = Some t"
    and "listening s"
  shows "fst (onMessage E providerChannelName' kind' onProviderMessage onError' data s) = Some t
       \<and> fst (dispatchEvent (onMessage E providerChannelName' kind' onProviderMessage onError')
               data s) = Some t"
  using assms by (simp add: dispatchEvent_def onMessage_def invoke_def)

theorem C10_onError_throws_witness:
  "onMessage_try (providerChannelName example_env ''p'') (HotOstrich_KIND example_env)
      (HotOstrich_onProviderMessage example_env throwing_onError)
      (JObj [(''ethereum'', JNull)]) example_pending
     = (Some (Throw_Error JsTypeError), example_pending)
   \<and> normalize example_env (Throw_Error JsTypeError) = Inr JsTypeError
   \<and> listening example_pending
   \<and> fst (dispatchEvent (HotOstrich_onMessage example_env ''p'' throwing_onError)
        (JObj [(''ethereum'', JNull)]) example_pending)
     = Some (Throw_Value (JStr ''onError failed''))"
proof -
  have thrown: "onMessage_try (providerChannelName example_env ''p'') (HotOstrich_KIND example_env)
      (HotOstrich_onProviderMessage example_env throwing_onError)
      (JObj [(''ethereum'', JNull)]) example_pending
     = (Some (Throw_Error JsTypeError), example_pending)"
    by (simp add: onMessage_try_def isEthereumMessageEvent_def own_property_def)
  have listening: "listening example_pending"
    by (simp add: example_pending_def getSignerAddress_def promisify_def Let_def new_Future_def
        send_def emit_def HotOstrichChannel_constructor_def Channel_constructor_def)
  have throws: "HotOstrich_onError throwing_onError e = Some (Throw_Value (JStr ''onError failed''))"
    for e
    by (simp add: throwing_onError_def)
  from C10_onError_throws [OF thrown normalize_Error throws listening, where E = example_env]
  show ?thesis
    by (simp add: thrown listening HotOstrich_onMessage_def normalize_Error)
qed

section \<open>Responses\<close>

text \<open>
  C5: for an event that carries, for this channel, a response object whose correlation id
  is that of no entry of the pending-request table, an error is thrown inside the
  dispatch, caught, and handed to \<^verbatim>\<open>onError\<close>: the error of no matching request, whose
  message ends in what \<^verbatim>\<open>JSON.stringify\<close> returns on the response, or else the error
  that \<^verbatim>\<open>JSON.stringify\<close> throws on it. The state is otherwise unchanged, and what
  leaves the listener is what \<^verbatim>\<open>onError\<close> yields, so nothing when \<^verbatim>\<open>onError\<close>
  returns.
\<close>

theorem C5_unmatched_response_onError:
  fixes s :: "'a HotOstrichChannel_scheme"
  assumes "envelope_for (providerChannelName E providerId) (HotOstrich_KIND E) data (JObj kvs)"
    and "own_property kvs ''type'' = JStr ''response''"
    and "\<forall>p \<in> set (pendingRequests s).
           JStr (correlationId p) \<noteq> own_property kvs ''correlation_id''"
  shows "(let error =
            (case JSON_stringify E (JObj kvs) of
               Inl e \<Rightarrow> e
             | Inr x \<Rightarrow> JsError
                 (''Received a response without finding a matching request.  Maybe it already timed out?  ''
                    @ interpolate x))
          in HotOstrich_onMessage E providerId h data s =
               (HotOstrich_onError h error, emit (Call_onError error) s))"
proof -
  from assms(3)
  have "find (\<lambda>p. JStr (correlationId p) = own_property kvs ''correlation_id'')
          (pendingRequests s) = None"
    by (simp add: find_None_iff)
  then show ?thesis
    by (simp add: HotOstrich_onMessage_response [OF assms(1,2)] onHotOstrichResponse_not_found
        invoke_def normalize_Error Let_def)
qed

theorem C5_unmatched_response_onError_witness:
  \<open>map correlationId (pendingRequests example_pending) = [''X'']
   \<and> own_property (example_response ''Y'' True JNull) ''correlation_id'' = JStr ''Y''
   \<and> HotOstrich_onMessage example_env ''p'' example_handlers (example_event ''Y'' True JNull)
       example_pending
     = (None,
        emit (Call_onError (JsError
          (''Received a response without finding a matching request.  Maybe it already timed out?  ''
             @ ''{"type":"response","kind":"get_signer_address","correlation_id":"Y","success":true,"payload":null}'')))
          example_pending)\<close>
proof -
  have unmatched: "\<forall>p \<in> set (pendingRequests example_pending).
      JStr (correlationId p) \<noteq> own_property (example_response ''Y'' True JNull) ''correlation_id''"
    by (simp add: example_pending_table example_response_properties)
  have serialized: \<open>JSON_stringify example_env (JObj (example_response ''Y'' True JNull))
      = Inr (Some ''{"type":"response","kind":"get_signer_address","correlation_id":"Y","success":true,"payload":null}'')\<close>
    by (simp add: example_JSON_stringify example_response_def quote_def quote_char_def)
  from C5_unmatched_response_onError [OF
      example_envelope_for [of "''Y''" True JNull]
      example_response_properties(1) [of "''Y''" True JNull] unmatched,
      where h = example_handlers]
  show ?thesis
    by (simp add: Let_def serialized interpolate_def example_handlers_def
        example_pending_table example_response_properties)
qed

text \<open>
  C6, at an input where the code departs from it. The claim is that a response with
  \<^verbatim>\<open>success\<close> \<^verbatim>\<open>false\<close> for a pending request rejects the Future of that request and
  is not routed through \<^verbatim>\<open>onError\<close>. For the pending request \<open>X\<close> and a failure
  response whose payload is the \<^verbatim>\<open>BigInt\<close> 1, \<^verbatim>\<open>JSON.stringify\<close> throws a
  \<^verbatim>\<open>TypeError\<close> at client.ts 176 before \<^verbatim>\<open>reject\<close> is called: no call is made on
  the Future, and \<^verbatim>\<open>onError\<close> is called with the \<^verbatim>\<open>TypeError\<close>.
\<close>

theorem C6_failure_payload_not_serializable:
  "own_property (example_response ''X'' False (JBigInt 1)) ''success'' = JBool False
   \<and> map correlationId (pendingRequests example_pending) = [''X'']
   \<and> HotOstrich_onMessage example_env ''p'' example_handlers
       (example_event ''X'' False (JBigInt 1)) example_pending
     = (None, emit (Call_onError JsTypeError) example_pending)"
proof -
  have "onHotOstrichResponse example_env (JObj (example_response ''X'' False (JBigInt 1)))
      example_pending = (Some (Throw_Error JsTypeError), example_pending)"
    by (rule onHotOstrichResponse_reject_throws)
      (simp_all add: example_response_properties example_pending_table example_JSON_stringify)
  then show ?thesis
    by (simp add: HotOstrich_onMessage_response [OF example_envelope_for example_response_properties(1)]
        normalize_Error invoke_def example_handlers_def example_response_properties
        example_pending_table)
qed

text \<open>
  C8: let two calls be issued one after the other, with correlation ids \<open>cA\<close> and \<open>cB\<close>
  that differ from each other and from those of the table, and let an event carry a
  response object for each, such that \<^verbatim>\<open>JSON.stringify\<close> returns on the payload of a
  response that is a failure. The two Futures differ, and in either order of delivery each
  delivery completes and makes exactly the settling call of its own response on the Future
  of its own call: the Future of B gets the response with \<open>cB\<close>, the Future of A the one
  with \<open>cA\<close>.
\<close>

theorem C8_concurrent_calls_settle_by_id:
  fixes s :: "'a HotOstrichChannel_scheme"
  assumes "\<forall>p \<in> set (pendingRequests s). correlationId p \<noteq> cA \<and> correlationId p \<noteq> cB"
    and "cA \<noteq> cB"
    and "promisify E providerId kindA payloadA nowA cA s = (fA, sA)"
    and "promisify E providerId kindB payloadB nowB cB sA = (fB, sB)"
    and "envelope_for (providerChannelName E providerId) (HotOstrich_KIND E) dataA (JObj rA)"
    and "own_property rA ''type'' = JStr ''response''"
    and "own_property rA ''correlation_id'' = JStr cA"
    and "\<not> truthy (own_property rA ''success'')
         \<longrightarrow> JSON_stringify E (own_property rA ''payload'') = Inr xA"
    and "envelope_for (providerChannelName E providerId) (HotOstrich_KIND E) dataB (JObj rB)"
    and "own_property rB ''type'' = JStr ''response''"
    and "own_property rB ''correlation_id'' = JStr cB"
    and "\<not> truthy (own_property rB ''success'')
         \<longrightarrow> JSON_stringify E (own_property rB ''payload'') = Inr xB"
  shows "(let callA =
            (if truthy (own_property rA ''success'')
             then Future_resolve fA (own_property rA ''payload'')
             else Future_reject fA
                    (JsError (''Failure response from provider.  '' @ interpolate xA)));
          callB =
            (if truthy (own_property rB ''success'')
             then Future_resolve fB (own_property rB ''payload'')
             else Future_reject fB
                    (JsError (''Failure response from provider.  '' @ interpolate xB)))
      in fA \<noteq> fB
       \<and> HotOstrich_onMessage E providerId h dataB sB = (None, emit callB sB)
       \<and> HotOstrich_onMessage E providerId h dataA (emit callB sB)
           = (None, emit callA (emit callB sB))
       \<and> HotOstrich_onMessage E providerId h dataA sB = (None, emit callA sB)
       \<and> HotOstrich_onMessage E providerId h dataB (emit callA sB)
           = (None, emit callB (emit callA sB)))"
proof -
  let ?pA = "\<lparr>entryTime = nowA, correlationId = cA, kind = kindA, future = fA\<rparr>"
  let ?pB = "\<lparr>entryTime = nowB, correlationId = cB, kind = kindB, future = fB\<rparr>"
  let ?callA = "if truthy (own_property rA ''success'')
     then Future_resolve fA (own_property rA ''payload'')
     else Future_reject fA (JsError (''Failure response from provider.  '' @ interpolate xA))"
  let ?callB = "if truthy (own_property rB ''success'')
     then Future_resolve fB (own_property rB ''payload'')
     else Future_reject fB (JsError (''Failure response from provider.  '' @ interpolate xB))"
  have fA: "fA = futures s" and sA: "sA = snd (promisify E providerId kindA payloadA nowA cA s)"
    using assms(3) fst_promisify [of E providerId kindA payloadA nowA cA s] by simp_all
  have fB: "fB = futures sA" and sB: "sB = snd (promisify E providerId kindB payloadB nowB cB sA)"
    using assms(4) fst_promisify [of E providerId kindB payloadB nowB cB sA] by simp_all
  have "fB = Suc fA"
    by (simp add: fA fB sA futures_promisify)
  then have neq: "fA \<noteq> fB" by simp
  have table: "pendingRequests sB = pendingRequests s @ [?pA, ?pB]"
    by (simp add: sA sB fA fB pendingRequests_promisify)
  have findA: "find (\<lambda>p. JStr (correlationId p) = own_property rA ''correlation_id'')
      (pendingRequests sB) = Some ?pA"
    using assms(1) by (simp add: table assms(7) find_fresh_append)
  have findB: "find (\<lambda>p. JStr (correlationId p) = own_property rB ''correlation_id'')
      (pendingRequests sB) = Some ?pB"
    using assms(1,2) by (simp add: table assms(11) find_fresh_append)
  have stepA: "HotOstrich_onMessage E providerId h dataA t = (None, emit ?callA t)"
    if "pendingRequests t = pendingRequests sB" for t :: "'a HotOstrichChannel_scheme"
  proof (cases "truthy (own_property rA ''success'')")
    case True
    with findA that show ?thesis
      by (simp add: HotOstrich_onMessage_response [OF assms(5,6)] onHotOstrichResponse_resolve)
  next
    case False
    with findA that assms(8) show ?thesis
      by (simp add: HotOstrich_onMessage_response [OF assms(5,6)] onHotOstrichResponse_reject)
  qed
  have stepB: "HotOstrich_onMessage E providerId h dataB t = (None, emit ?callB t)"
    if "pendingRequests t = pendingRequests sB" for t :: "'a HotOstrichChannel_scheme"
  proof (cases "truthy (own_property rB ''success'')")
    case True
    with findB that show ?thesis
      by (simp add: HotOstrich_onMessage_response [OF assms(9,10)] onHotOstrichResponse_resolve)
  next
    case False
    with findB that assms(12) show ?thesis
      by (simp add: HotOstrich_onMessage_response [OF assms(9,10)] onHotOstrichResponse_reject)
  qed
  have "HotOstrich_onMessage E providerId h dataB sB = (None, emit ?callB sB)"
    by (rule stepB) simp
  moreover have "HotOstrich_onMessage E providerId h dataA (emit ?callB sB)
      = (None, emit ?callA (emit ?callB sB))"
    by (rule stepA) (simp add: pendingRequests_emit)
  moreover have "HotOstrich_onMessage E providerId h dataA sB = (None, emit ?callA sB)"
    by (rule stepA) simp
  moreover have "HotOstrich_onMessage E providerId h dataB (emit ?callA sB)
      = (None, emit ?callB (emit ?callA sB))"
    by (rule stepB) (simp add: pendingRequests_emit)
  ultimately show ?thesis
    using neq unfolding Let_def by blast
qed

theorem C8_concurrent_calls_settle_by_id_witness:
  "map correlationId (pendingRequests example_pending) = [''X'']
   \<and> ''A'' \<noteq> ''B''
   \<and> JSON_stringify example_env (own_property (example_response ''A'' False JNull) ''payload'')
     = Inr (Some ''null'')
   \<and> (let sA = snd (getCapabilities example_env ''p'' 1 ''A'' example_pending);
          sB = snd (getSignerAddress example_env ''p'' 2 ''B'' sA);
          afterB = snd (HotOstrich_onMessage example_env ''p'' example_handlers
                     (example_event ''B'' True (JStr ''b'')) sB);
          afterA = snd (HotOstrich_onMessage example_env ''p'' example_handlers
                     (example_event ''A'' False JNull) afterB)
      in trace afterA = trace sB
           @ [Future_resolve 2 (JStr ''b''),
              Future_reject 1 (JsError ''Failure response from provider.  null'')])"
proof -
  let ?sA = "snd (getCapabilities example_env ''p'' 1 ''A'' example_pending)"
  let ?sB = "snd (getSignerAddress example_env ''p'' 2 ''B'' ?sA)"
  have fresh: "\<forall>p \<in> set (pendingRequests example_pending).
      correlationId p \<noteq> ''A'' \<and> correlationId p \<noteq> ''B''"
    by (simp add: example_pending_table)
  have neq: "''A'' \<noteq> ''B''" by simp
  have futures_pending: "futures example_pending = 1"
    by (simp add: example_pending_def getSignerAddress_def futures_promisify
        HotOstrichChannel_constructor_def Channel_constructor_def)
  have A: "promisify example_env ''p'' ''get_capabilities'' (JObj []) 1 ''A'' example_pending = (1, ?sA)"
    using fst_promisify [of example_env "''p''" "''get_capabilities''" "JObj []" 1 "''A''" example_pending]
    by (simp add: getCapabilities_def futures_pending prod_eq_iff)
  have B: "promisify example_env ''p'' ''get_signer_address'' (JObj []) 2 ''B'' ?sA = (2, ?sB)"
    using fst_promisify [of example_env "''p''" "''get_signer_address''" "JObj []" 2 "''B''" ?sA]
    by (simp add: getSignerAddress_def getCapabilities_def futures_promisify futures_pending prod_eq_iff)
  have textA: "\<not> truthy (own_property (example_response ''A'' False JNull) ''success'')
      \<longrightarrow> JSON_stringify example_env (own_property (example_response ''A'' False JNull) ''payload'')
          = Inr (Some ''null'')"
    by (simp add: example_response_properties example_JSON_stringify)
  have textB: "\<not> truthy (own_property (example_response ''B'' True (JStr ''b'')) ''success'')
      \<longrightarrow> JSON_stringify example_env (own_property (example_response ''B'' True (JStr ''b'')) ''payload'')
          = Inr None"
    by (simp add: example_response_properties)
  from C8_concurrent_calls_settle_by_id [OF fresh neq A B
      example_envelope_for [of "''A''" False JNull]
      example_response_properties(1) [of "''A''" False JNull]
      example_response_properties(2) [of "''A''" False JNull]
      textA
      example_envelope_for [of "''B''" True "JStr ''b''"]
      example_response_properties(1) [of "''B''" True "JStr ''b''"]
      example_response_properties(2) [of "''B''" True "JStr ''b''"]
      textB,
      where h = example_handlers]
  show ?thesis
    by (simp add: Let_def example_response_properties trace_emit example_pending_table
        interpolate_def example_JSON_stringify)
qed

section \<open>Handshake and shutdown\<close>

text \<open>
  C7: the constructor of a HandshakeChannel posts the \<^verbatim>\<open>client_announcement\<close>
  broadcast, an envelope for the client channel of the handshake whose message has the
  \<^verbatim>\<open>kind\<close> \<^verbatim>\<open>client_announcement\<close>, the \<^verbatim>\<open>type\<close> \<^verbatim>\<open>broadcast\<close> and the empty
  object as \<^verbatim>\<open>payload\<close> (to the parent window when there is one, then to the window
  itself); \<^verbatim>\<open>reRequestProviders\<close> posts the same again and leaves \<^verbatim>\<open>knownProviders\<close>
  as it was; and for an event that carries, for this channel, a
  \<^verbatim>\<open>provider_announcement\<close> notification whose payload is an object and whose
  \<^verbatim>\<open>provider_id\<close> converts to a property key \<open>k\<close> other than \<^verbatim>\<open>__proto__\<close> (which
  is never the key of a stored announcement), the listener stores the payload under \<open>k\<close>,
  known before or not, leaves every other key and the prototype of \<^verbatim>\<open>knownProviders\<close>
  as they were, and calls \<^verbatim>\<open>onProviderAnnounced\<close> with the payload (followed by
  \<^verbatim>\<open>onError\<close> only when that callback throws).
\<close>

theorem C7_announce_and_upsert:
  fixes s :: "'a HandshakeChannel_scheme"
  shows
  "(let broadcast =
          JObj [(''ethereum'',
            JObj [(''channel'', JStr (Handshake_CLIENT_CHANNEL_NAME E)),
                  (''kind'', JStr (Handshake_KIND E)),
                  (''message'',
                     JObj [(''kind'', JStr ''client_announcement''),
                           (''type'', JStr ''broadcast''), (''payload'', JObj [])])])];
        posts = (if parent_distinct E then [Parent_postMessage broadcast] else [])
                  @ [Window_postMessage broadcast]
    in trace (HandshakeChannel_constructor E) = posts
     \<and> trace (reRequestProviders E s) = trace s @ posts
     \<and> knownProviders (reRequestProviders E s) = knownProviders s
     \<and> knownProviders_prototype (reRequestProviders E s) = knownProviders_prototype s
     \<and> (envelope_for (Handshake_PROVIDER_CHANNEL_NAME E) (Handshake_KIND E) data (JObj kvs)
          \<and> own_property kvs ''type'' = JStr ''notification''
          \<and> own_property kvs ''kind'' = JStr ''provider_announcement''
          \<and> own_property kvs ''payload'' = JObj announcement
          \<and> property_key E (own_property announcement ''provider_id'') = Inr k
          \<and> k \<noteq> ''__proto__''
        \<longrightarrow> (let s' = snd (Handshake_onMessage E h data s)
              in knownProviders s' k = Some (JObj announcement)
               \<and> (\<forall>k'. k' \<noteq> k \<longrightarrow> knownProviders s' k' = knownProviders s k')
               \<and> knownProviders_prototype s' = knownProviders_prototype s
               \<and> trace s' = trace s @ [Call_onProviderAnnounced (JObj announcement)]
                   @ (case onProviderAnnounced h (JObj announcement) of
                        None \<Rightarrow> []
                      | Some t \<Rightarrow>
                          (case normalize E t of Inl e \<Rightarrow> [] | Inr e \<Rightarrow> [Call_onError e])))))"
proof -
  let ?broadcast = "JObj [(''ethereum'',
            JObj [(''channel'', JStr (Handshake_CLIENT_CHANNEL_NAME E)),
                  (''kind'', JStr (Handshake_KIND E)),
                  (''message'',
                     JObj [(''kind'', JStr ''client_announcement''),
                           (''type'', JStr ''broadcast''), (''payload'', JObj [])])])]"
  let ?posts = "(if parent_distinct E then [Parent_postMessage ?broadcast] else [])
                  @ [Window_postMessage ?broadcast]"
  have posts: "trace (HandshakeChannel_constructor E) = ?posts"
    by (simp add: HandshakeChannel_constructor_def announceClient_def trace_send
        Channel_constructor_def EthereumEnvelope_def client_announcement_def)
  have again: "trace (reRequestProviders E s) = trace s @ ?posts"
    by (simp add: reRequestProviders_def announceClient_def trace_send
        EthereumEnvelope_def client_announcement_def)
  have kept: "knownProviders (reRequestProviders E s) = knownProviders s"
    by (simp add: reRequestProviders_def announceClient_def knownProviders_send)
  have kept_prototype:
    "knownProviders_prototype (reRequestProviders E s) = knownProviders_prototype s"
    by (simp add: reRequestProviders_def announceClient_def send_def Let_def emit_def)
  have upsert: "(let s' = snd (Handshake_onMessage E h data s)
              in knownProviders s' k = Some (JObj announcement)
               \<and> (\<forall>k'. k' \<noteq> k \<longrightarrow> knownProviders s' k' = knownProviders s k')
               \<and> knownProviders_prototype s' = knownProviders_prototype s
               \<and> trace s' = trace s @ [Call_onProviderAnnounced (JObj announcement)]
                   @ (case onProviderAnnounced h (JObj announcement) of
                        None \<Rightarrow> []
                      | Some t \<Rightarrow>
                          (case normalize E t of Inl e \<Rightarrow> [] | Inr e \<Rightarrow> [Call_onError e])))"
    if "envelope_for (Handshake_PROVIDER_CHANNEL_NAME E) (Handshake_KIND E) data (JObj kvs)"
      and "own_property kvs ''type'' = JStr ''notification''"
      and "own_property kvs ''kind'' = JStr ''provider_announcement''"
      and "own_property kvs ''payload'' = JObj announcement"
      and "property_key E (own_property announcement ''provider_id'') = Inr k"
      and "k \<noteq> ''__proto__''"
    using that(6)
    by (simp add: Handshake_onMessage_announcement [OF that(1-5)] Let_def emit_def
        knownProviders_assign_def split: option.splits sum.splits)
  from posts again kept kept_prototype upsert show ?thesis
    unfolding Let_def by blast
qed

theorem C7_announce_and_upsert_witness:
  "knownProviders example_directory ''p1'' = Some (JObj (example_announcement ''p1'' ''old''))
   \<and> property_key example_env (own_property (example_announcement ''p1'' ''new'') ''provider_id'')
     = Inr ''p1''
   \<and> knownProviders
       (snd (Handshake_onMessage example_env example_handshake_handlers
          (EthereumEnvelope ''HandshakeProvider'' ''handshake'' (JObj example_announcement_message))
          example_directory)) ''p1''
     = Some (JObj (example_announcement ''p1'' ''new''))
   \<and> knownProviders
       (snd (Handshake_onMessage example_env example_handshake_handlers
          (EthereumEnvelope ''HandshakeProvider'' ''handshake'' (JObj example_announcement_message))
          example_directory)) ''p2''
     = Some (JObj (example_announcement ''p2'' ''other''))
   \<and> trace
       (snd (Handshake_onMessage example_env example_handshake_handlers
          (EthereumEnvelope ''HandshakeProvider'' ''handshake'' (JObj example_announcement_message))
          example_directory))
     = [Call_onProviderAnnounced (JObj (example_announcement ''p1'' ''new''))]"
proof -
  have envelope: "envelope_for (Handshake_PROVIDER_CHANNEL_NAME example_env) (Handshake_KIND example_env)
      (EthereumEnvelope ''HandshakeProvider'' ''handshake'' (JObj example_announcement_message))
      (JObj example_announcement_message)"
    by (simp add: envelope_for_def EthereumEnvelope_def example_env_def)
  have message: "own_property example_announcement_message ''type'' = JStr ''notification''"
    "own_property example_announcement_message ''kind'' = JStr ''provider_announcement''"
    "own_property example_announcement_message ''payload'' = JObj (example_announcement ''p1'' ''new'')"
    by (simp_all add: own_property_def example_announcement_message_def)
  have key: "property_key example_env (own_property (example_announcement ''p1'' ''new'') ''provider_id'') = Inr ''p1''"
    by (simp add: property_key_def own_property_def example_announcement_def)
  have other: "''p1'' \<noteq> ''__proto__''" "''p2'' \<noteq> ''p1''"
    by simp_all
  from C7_announce_and_upsert [where E = example_env and s = example_directory
      and data = "EthereumEnvelope ''HandshakeProvider'' ''handshake'' (JObj example_announcement_message)"
      and kvs = example_announcement_message and announcement = "example_announcement ''p1'' ''new''"
      and h = example_handshake_handlers and k = "''p1''"]
    envelope message key other
  show ?thesis
    by (simp add: Let_def example_directory_def example_handshake_handlers_def)
qed

text \<open>
  C9: \<^verbatim>\<open>shutdown\<close> removes the listener, so that the window dispatches no further
  event to the instance; a second \<^verbatim>\<open>shutdown\<close> changes nothing more; and it leaves the
  trace and every field a subclass adds as they were: on a HotOstrichChannel the
  pending-request table and the Futures are untouched, no Future is settled and no entry
  removed.
\<close>

theorem C9_shutdown_frame:
  fixes s :: "'a channel_scheme" and t :: "'b HotOstrichChannel_scheme"
  shows "listening (shutdown s) = False
     \<and> dispatchEvent listener data (shutdown s) = (None, shutdown s)
     \<and> shutdown (shutdown s) = shutdown s
     \<and> trace (shutdown s) = trace s
     \<and> channel.more (shutdown s) = channel.more s
     \<and> pendingRequests (shutdown t) = pendingRequests t
     \<and> futures (shutdown t) = futures t"
  by (simp add: shutdown_def dispatchEvent_def)

end
